theory Spec2Isabelle
  imports Complex_Main
begin

section \<open>Strings\<close>

text \<open>
  A Python \<open>str\<close> is modelled as a \<^typ>\<open>string\<close> holding its UTF-8 encoding. The
  sources use six characters outside ASCII; each is a named constant here, and a literal
  that contains one is the concatenation of its ASCII pieces and these constants.
  A line feed inside a literal is written \<open>\<newline>\<close>.
\<close>

definition ldquo :: string where
  "ldquo = [CHR 0xE2, CHR 0x80, CHR 0x9C]"

definition rdquo :: string where
  "rdquo = [CHR 0xE2, CHR 0x80, CHR 0x9D]"

definition rsquo :: string where
  "rsquo = [CHR 0xE2, CHR 0x80, CHR 0x99]"

definition endash :: string where
  "endash = [CHR 0xE2, CHR 0x80, CHR 0x93]"

definition emdash :: string where
  "emdash = [CHR 0xE2, CHR 0x80, CHR 0x94]"

definition bullet :: string where
  "bullet = [CHR 0xE2, CHR 0x80, CHR 0xA2]"

text \<open>
  \<open>str.strip()\<close>: leading and trailing whitespace removed. Only the ASCII whitespace
  characters are recognised (the one stripped literal of the sources has no other).
\<close>

definition isspace :: "char \<Rightarrow> bool" where
  "isspace c = (c \<in> {CHR 0x09, CHR 0x0A, CHR 0x0B, CHR 0x0C, CHR 0x0D,
                       CHR 0x1C, CHR 0x1D, CHR 0x1E, CHR 0x1F, CHR 0x20})"

definition strip :: "string \<Rightarrow> string" where
  "strip s = rev (dropWhile isspace (rev (dropWhile isspace s)))"

section \<open>The layout library's data, as the generators construct it\<close>

text \<open>
  \<open>reportlab.lib.units.inch\<close> and the page size \<open>LETTER\<close> (also spelled \<open>letter\<close>).
  Python floats are modelled as exact reals; no property below depends on rounding.
\<close>

definition inch :: real where
  "inch = 72"

definition LETTER :: "real \<times> real" where
  "LETTER = (8.5 * inch, 11 * inch)"

definition TA_CENTER :: real where
  "TA_CENTER = 1"

definition TA_JUSTIFY :: real where
  "TA_JUSTIFY = 4"

datatype attr_value = Num real | Str string | Color string

text \<open>
  \<open>ParagraphStyle(name, parent=p, k1=v1, ...)\<close>: a style object keeps its name, its
  parent and the keyword attributes given at construction. An attribute that was not
  given is inherited from the parent (\<open>style_attr\<close>). Styles are never mutated after
  construction in the sources, so a style is a value.
\<close>

datatype paragraph_style =
  ParagraphStyle (name: string) (parent: "paragraph_style option")
    (overrides: "(string \<times> attr_value) list")

fun style_attr :: "paragraph_style \<Rightarrow> string \<Rightarrow> attr_value option" where
  "style_attr (ParagraphStyle n p kw) k =
     (case map_of kw k of
        Some v \<Rightarrow> Some v
      | None \<Rightarrow> (case p of None \<Rightarrow> None | Some q \<Rightarrow> style_attr q k))"

text \<open>Table style commands: \<open>(command, (col, row), (col, row), arguments)\<close>.\<close>

datatype ts_cmd =
  VALIGN "int \<times> int" "int \<times> int" string
| LINEBELOW "int \<times> int" "int \<times> int" real attr_value
| BOTTOMPADDING "int \<times> int" "int \<times> int" real

text \<open>
  The flowables the generators create. \<open>Table\<close> carries its cell grid, \<open>hAlign\<close>,
  \<open>colWidths\<close> and the style commands set on it. A flowable holds its style itself
  (the Python object), not a name to be looked up. A constructor of the datatype is
  the object once it exists. Constructing a Paragraph from an arbitrary text can
  raise (\<open>new_Paragraph\<close> below); the generators construct theirs from literals of
  well-formed markup, for which the construction is taken to succeed. \<open>Table\<close> pads
  short rows under the library's default settings and raises nothing for them.
\<close>

datatype flowable =
  Paragraph string paragraph_style
| Spacer real real
| PageBreak
| Table "flowable list list" string "real list" "ts_cmd list"

definition TableStyle :: "ts_cmd list \<Rightarrow> ts_cmd list" where
  "TableStyle cmds = cmds"

text \<open>
  \<open>table.setStyle(TableStyle(cmds))\<close> adds the commands to those of the table. The
  sources call it on tables only, each before the table is appended; the second
  equation only makes the function total.
\<close>

fun setStyle :: "flowable \<Rightarrow> ts_cmd list \<Rightarrow> flowable" where
  "setStyle (Table data h cw cmds) tblstyle = Table data h cw (cmds @ tblstyle)"
| "setStyle f tblstyle = f"

text \<open>The paragraph styles a flowable carries: its own, and for a table those of its cells.\<close>

fun flowable_styles :: "flowable \<Rightarrow> paragraph_style list" where
  "flowable_styles (Paragraph t s) = [s]"
| "flowable_styles (Spacer w h) = []"
| "flowable_styles PageBreak = []"
| "flowable_styles (Table data h cw cmds) =
     concat (map (\<lambda>row. concat (map flowable_styles row)) data)"

record doc_template =
  filename :: string
  pagesize :: "real \<times> real"
  leftMargin :: real
  rightMargin :: real
  topMargin :: real
  bottomMargin :: real
  title :: "string option"
  author :: "string option"
  subject :: "string option"

text \<open>
  \<open>canvas.Canvas\<close>: the file name and page size given at construction, the document
  title, the current font (\<open>None\<close> until \<open>setFont\<close>), the strings drawn on the current
  page and the pages already finished by \<open>showPage\<close>.
\<close>

datatype draw_op = DrawString real real string "(string \<times> real) option"

record canvas =
  c_filename :: string
  c_pagesize :: "real \<times> real"
  c_title :: "string option"
  c_font :: "(string \<times> real) option"
  c_page :: "draw_op list"
  c_pages :: "draw_op list list"

definition Canvas :: "string \<Rightarrow> real \<times> real \<Rightarrow> canvas" where
  "Canvas fname psize =
     \<lparr>c_filename = fname, c_pagesize = psize, c_title = None, c_font = None,
      c_page = [], c_pages = []\<rparr>"

definition setTitle :: "canvas \<Rightarrow> string \<Rightarrow> canvas" where
  "setTitle c t = c\<lparr>c_title := Some t\<rparr>"

definition setFont :: "canvas \<Rightarrow> string \<Rightarrow> real \<Rightarrow> canvas" where
  "setFont c fname fsize = c\<lparr>c_font := Some (fname, fsize)\<rparr>"

definition drawString :: "canvas \<Rightarrow> real \<Rightarrow> real \<Rightarrow> string \<Rightarrow> canvas" where
  "drawString c x y s = c\<lparr>c_page := c_page c @ [DrawString x y s (c_font c)]\<rparr>"

definition showPage :: "canvas \<Rightarrow> canvas" where
  "showPage c = c\<lparr>c_page := [], c_pages := c_pages c @ [c_page c]\<rparr>"

section \<open>Effects: files, standard output, exceptions\<close>

text \<open>
  The observable world of one invocation: the file system as a map from paths to
  contents, and the lines printed on standard output and standard error.
\<close>

type_synonym bytes = string

type_synonym fs = "string \<rightharpoonup> bytes"

record world =
  files :: fs
  stdout :: "string list"
  stderr :: "string list"

text \<open>An exception raised inside the library, with its message.\<close>

datatype exn = Raised string

text \<open>
  What the generators take from outside the repository. None of it is under the
  sources, so it is a parameter of every generator:
  \<^item> \<open>getSampleStyleSheet\<close>: the library's sample stylesheet, looked up by name;
  \<^item> \<open>build\<close>: \<open>SimpleDocTemplate.build\<close>, layout and serialisation of a story. It
    either raises, leaving the file system in some state, or yields the bytes of the
    document;
  \<^item> \<open>simpleSplit\<close>: line wrapping of a text for a font, a size and a width;
  \<^item> \<open>save\<close>: \<open>Canvas.save\<close>, serialisation of a canvas, raising or yielding bytes;
  \<^item> \<open>abspath\<close>: \<open>os.path.abspath\<close>.
\<close>

record externals =
  getSampleStyleSheet :: "string \<Rightarrow> paragraph_style"
  build :: "doc_template \<Rightarrow> flowable list \<Rightarrow> fs \<Rightarrow> (exn \<times> fs) + bytes"
  simpleSplit :: "string \<Rightarrow> string \<Rightarrow> real \<Rightarrow> real \<Rightarrow> string list"
  save :: "canvas \<Rightarrow> fs \<Rightarrow> (exn \<times> fs) + bytes"
  abspath :: "string \<Rightarrow> string"

text \<open>\<open>print(s)\<close> adds one line to standard output.\<close>

definition print :: "world \<Rightarrow> string \<Rightarrow> world" where
  "print w s = w\<lparr>stdout := stdout w @ [s]\<rparr>"

text \<open>
  \<open>doc.build(story)\<close>: when the library raises, the exception leaves the call with the
  file system as the library left it; otherwise the document is written at the
  template's file name, replacing what was there.
\<close>

definition doc_build ::
  "externals \<Rightarrow> doc_template \<Rightarrow> flowable list \<Rightarrow> world \<Rightarrow> (exn \<times> world) + world" where
  "doc_build ext doc story w =
     (case build ext doc story (files w) of
        Inl (e, fs') \<Rightarrow> Inl (e, w\<lparr>files := fs'\<rparr>)
      | Inr bs \<Rightarrow> Inr (w\<lparr>files := (files w)(filename doc \<mapsto> bs)\<rparr>))"

text \<open>\<open>pdf.save()\<close>, in the same way, at the canvas's file name.\<close>

definition canvas_save :: "externals \<Rightarrow> canvas \<Rightarrow> world \<Rightarrow> (exn \<times> world) + world" where
  "canvas_save ext c w =
     (case save ext c (files w) of
        Inl (e, fs') \<Rightarrow> Inl (e, w\<lparr>files := fs'\<rparr>)
      | Inr bs \<Rightarrow> Inr (w\<lparr>files := (files w)(c_filename c \<mapsto> bs)\<rparr>))"

text \<open>
  Running a script: an exception that reaches the top level ends the process with
  exit status 1 and its message on standard error (the traceback lines are left out);
  otherwise the exit status is 0.
\<close>

definition run_script ::
  "(string list \<Rightarrow> world \<Rightarrow> (exn \<times> world) + world) \<Rightarrow> string list \<Rightarrow> world \<Rightarrow> int \<times> world" where
  "run_script script argv w =
     (case script argv w of
        Inl (Raised msg, w') \<Rightarrow> (1, w'\<lparr>stderr := stderr w' @ [msg]\<rparr>)
      | Inr w' \<Rightarrow> (0, w'))"

section \<open>Building a story\<close>

text \<open>
  \<open>story.append(b)\<close> on a Python list: the block goes to the end, nothing else changes,
  and the call cannot fail.
\<close>

definition story_append :: "flowable list \<Rightarrow> flowable \<Rightarrow> flowable list" where
  "story_append story b = story @ [b]"

text \<open>
  \<open>Paragraph(text, style)\<close> on an arbitrary text: the library parses the markup of
  the text when it constructs the paragraph, and raises \<open>ValueError\<close> on a text it
  cannot parse (an unclosed tag, for one). Which texts it rejects is the library's
  business, so the check is a parameter: \<open>markup_error text\<close> is the message of the
  exception for a rejected text and \<open>None\<close> for an accepted one.
\<close>

definition new_Paragraph ::
  "(string \<Rightarrow> string option) \<Rightarrow> string \<Rightarrow> paragraph_style \<Rightarrow> exn + flowable" where
  "new_Paragraph markup_error text style =
     (case markup_error text of
        Some msg \<Rightarrow> Inl (Raised msg)
      | None \<Rightarrow> Inr (Paragraph text style))"

text \<open>
  The loop
  \<^verbatim>\<open>for bp in items: story.append(Paragraph(f"<bullet> {bp}", style))\<close>
  where \<open><bullet>\<close> is U+2022. An exception raised by the constructor leaves the loop
  at once: the items after it are not looked at, and the story holds what the
  iterations before it appended.
\<close>

fun bullet_loop ::
  "(string \<Rightarrow> string option) \<Rightarrow> string list \<Rightarrow> paragraph_style \<Rightarrow> flowable list \<Rightarrow>
     (exn \<times> flowable list) + flowable list" where
  "bullet_loop markup_error [] style story = Inr story"
| "bullet_loop markup_error (bp # items) style story =
     (case new_Paragraph markup_error (bullet @ '' '' @ bp) style of
        Inl raised \<Rightarrow> Inl (raised, story)
      | Inr b \<Rightarrow> bullet_loop markup_error items style (story_append story b))"

text \<open>
  The same loop when no text is rejected. That is the case of the seven bullet lists
  of the complaint, literals of well-formed markup; \<open>bullet_loop_all_accepted\<close> below
  shows that the loop then returns what this function computes.
\<close>

fun append_bullets :: "string list \<Rightarrow> paragraph_style \<Rightarrow> flowable list \<Rightarrow> flowable list" where
  "append_bullets [] style story = story"
| "append_bullets (bp # items) style story =
     append_bullets items style (story_append story (Paragraph (bullet @ '' '' @ bp) style))"

text \<open>
  The two kinds of statement that build a story, and a body of such statements run
  from top to bottom on the list.
\<close>

datatype stmt =
  Append flowable
| ForAppendBullet "string list" paragraph_style

fun exec :: "stmt \<Rightarrow> flowable list \<Rightarrow> flowable list" where
  "exec (Append b) story = story_append story b"
| "exec (ForAppendBullet items style) story = append_bullets items style story"

fun run_body :: "stmt list \<Rightarrow> flowable list \<Rightarrow> flowable list" where
  "run_body [] story = story"
| "run_body (s # body) story = run_body body (exec s story)"

text \<open>The blocks a statement appends, in the order of the source text.\<close>

fun appended :: "stmt \<Rightarrow> flowable list" where
  "appended (Append b) = [b]"
| "appended (ForAppendBullet items style) =
     map (\<lambda>bp. Paragraph (bullet @ '' '' @ bp) style) items"

section \<open>gen_complaint.py\<close>

text \<open>
  What a generator has built when it calls the renderer: the document template, the
  styles it defined, and the story.
\<close>

record built =
  b_doc :: doc_template
  b_styles :: "paragraph_style list"
  b_story :: "flowable list"

subsection \<open>Styles\<close>

text \<open>
  In each definition \<open>styles\<close> is the value of \<open>getSampleStyleSheet()\<close>. The local
  names of \<open>generate_civil_action_pdf\<close> are kept.
\<close>

definition style_title :: "(string \<Rightarrow> paragraph_style) \<Rightarrow> paragraph_style" where
  "style_title styles =
     ParagraphStyle ''TitleStyle'' (Some (styles ''Title''))
       [(''fontSize'', Num 16), (''leading'', Num 20), (''alignment'', Num TA_CENTER),
        (''spaceAfter'', Num 12)]"

definition style_subtitle :: "(string \<Rightarrow> paragraph_style) \<Rightarrow> paragraph_style" where
  "style_subtitle styles =
     ParagraphStyle ''SubtitleStyle'' (Some (styles ''Title''))
       [(''fontSize'', Num 14), (''leading'', Num 18), (''alignment'', Num TA_CENTER),
        (''spaceAfter'', Num 6)]"

definition style_heading :: "(string \<Rightarrow> paragraph_style) \<Rightarrow> paragraph_style" where
  "style_heading styles =
     ParagraphStyle ''HeadingStyle'' (Some (styles ''Heading1''))
       [(''fontSize'', Num 12), (''leading'', Num 14), (''spaceAfter'', Num 6),
        (''spaceBefore'', Num 12)]"

definition style_paragraph :: "(string \<Rightarrow> paragraph_style) \<Rightarrow> paragraph_style" where
  "style_paragraph styles =
     ParagraphStyle ''ParagraphStyle'' (Some (styles ''Normal''))
       [(''fontSize'', Num 10.5), (''leading'', Num 14), (''alignment'', Num TA_JUSTIFY),
        (''spaceAfter'', Num 6)]"

definition style_paragraph_indent :: "(string \<Rightarrow> paragraph_style) \<Rightarrow> paragraph_style" where
  "style_paragraph_indent styles =
     ParagraphStyle ''ParagraphIndentStyle'' (Some (style_paragraph styles))
       [(''leftIndent'', Num 20)]"

definition style_bulleted_list :: "(string \<Rightarrow> paragraph_style) \<Rightarrow> paragraph_style" where
  "style_bulleted_list styles =
     ParagraphStyle ''BulletedListStyle'' (Some (style_paragraph styles))
       [(''bulletIndent'', Num 20), (''leftIndent'', Num 40),
        (''bulletFontName'', Str ''Helvetica''), (''bulletFontSize'', Num 10.5),
        (''leading'', Num 14)]"

definition style_paragraph_centered :: "(string \<Rightarrow> paragraph_style) \<Rightarrow> paragraph_style" where
  "style_paragraph_centered styles =
     ParagraphStyle ''CenteredParagraphStyle'' (Some (style_paragraph styles))
       [(''alignment'', Num TA_CENTER)]"

text \<open>The styles defined by \<open>generate_civil_action_pdf\<close>, in the order of definition.\<close>

definition complaint_styles :: "(string \<Rightarrow> paragraph_style) \<Rightarrow> paragraph_style list" where
  "complaint_styles styles =
     [style_title styles, style_subtitle styles, style_heading styles,
      style_paragraph styles, style_paragraph_indent styles,
      style_bulleted_list styles, style_paragraph_centered styles]"

subsection \<open>Texts bound to local variables\<close>

definition intro_text_1 :: string where
  "intro_text_1 =
     ''1. Plaintiff, Bo Shang ('' @ ldquo @ ''Plaintiff'' @ rdquo @ ''), brings this action against Amazon.com, Inc. '' @
     ''('' @ ldquo @ ''Amazon'' @ rdquo @ '' or '' @ ldquo @ ''Defendant'' @ rdquo @ ''), alleging that Defendant sold or facilitated the sale of '' @
     ''a stolen Google Pixel 7A smartphone through its Prime shipping program. '' @
     ''Plaintiff contends that after discovering the phone was stolen, Amazon:''"

definition bullet_points_intro_1 :: "string list" where
  "bullet_points_intro_1 =
     [''Required Plaintiff to drop off the return in person at an Amazon-approved location; and'',
      ''Imposed a 20% restocking fee due to a purported 90-day return limit '' @ emdash @ '' even though the device'' @ rsquo @ ''s '' @
      ''stolen status was unknown to Plaintiff until after that period.'']"

definition intro_text_2 :: string where
  "intro_text_2 =
     ''2. Plaintiff seeks compensatory damages, equitable relief, attorneys'' @ rsquo @ '' fees '' @
     ''(if permitted by law), and any other relief deemed just and proper.''"

definition jurisdiction_text_3 :: string where
  "jurisdiction_text_3 =
     ''3. Subject Matter Jurisdiction: This Court has jurisdiction over the claims asserted herein '' @
     ''under RCW 2.08.010, which grants the Superior Court original jurisdiction in all civil actions '' @
     ''where the value of the claim exceeds the jurisdictional limits of inferior courts.''"

definition jurisdiction_text_4 :: string where
  "jurisdiction_text_4 =
     ''4. Personal Jurisdiction: Defendant Amazon.com, Inc. is headquartered in Seattle, Washington, '' @
     ''transacts substantial business in King County, and has purposely availed itself of the benefits '' @
     ''and protections of Washington laws. Therefore, personal jurisdiction is proper under RCW 4.28.185 '' @
     ''and general principles of due process.''"

definition jurisdiction_text_5 :: string where
  "jurisdiction_text_5 =
     ''5. Venue: Venue is proper in King County under RCW 4.12.025(1) because Defendant'' @ rsquo @ ''s principal place '' @
     ''of business is in King County, and a substantial part of the events or omissions giving rise to '' @
     ''Plaintiff'' @ rsquo @ ''s claims occurred in King County.''"

definition parties_text_6 :: string where
  "parties_text_6 =
     ''6. Plaintiff, Bo Shang ('' @ ldquo @ ''Plaintiff'' @ rdquo @ ''), is an individual residing in [County/State], who purchased '' @
     ''a Pixel 7A smartphone from Amazon'' @ rsquo @ ''s platform under the Amazon Prime shipping program.''"

definition parties_text_7 :: string where
  "parties_text_7 =
     ''7. Defendant, Amazon.com, Inc. ('' @ ldquo @ ''Amazon'' @ rdquo @ '' or '' @ ldquo @ ''Defendant'' @ rdquo @ ''), is a Delaware corporation with its '' @
     ''principal place of business located at 410 Terry Avenue North, Seattle, Washington 98109.''"

definition factual_text_8_intro :: string where
  "factual_text_8_intro =
     ''8. Purchase and Discovery of Stolen Status:''"

definition bullet_points_8 :: "string list" where
  "bullet_points_8 =
     [''On or about [date of purchase], Plaintiff purchased a Google Pixel 7A smartphone from Amazon. '' @
      ''The product was labeled '' @ ldquo @ ''Prime,'' @ rdquo @ '' suggesting either it was sold by Amazon or fulfilled by '' @
      ''Amazon on behalf of a third-party seller.'',
      ''Plaintiff received and used the phone but subsequently discovered, through [documentation from '' @
      ''manufacturer/mobile carrier/police report/other source], that the device had been reported '' @
      ''stolen before Plaintiff'' @ rsquo @ ''s purchase.'']"

definition factual_text_9_intro :: string where
  "factual_text_9_intro =
     ''9. Notification to Amazon:''"

definition bullet_points_9 :: "string list" where
  "bullet_points_9 =
     [''Plaintiff promptly informed Amazon Customer Service of the phone'' @ rsquo @ ''s stolen status and requested a refund.'',
      ''Amazon instructed Plaintiff to drop off the device at an approved Amazon or carrier location. '' @
      ''Plaintiff was forced to personally handle and transport the stolen item at his own expense '' @
      ''and inconvenience.'']"

definition factual_text_10_intro :: string where
  "factual_text_10_intro =
     ''10. Restocking Fee Imposed:''"

definition bullet_points_10 :: "string list" where
  "bullet_points_10 =
     [''Amazon refused to process the return without a 20% restocking fee, asserting that the phone was '' @
      ''outside the 90-day return window.'',
      ''Plaintiff contends that the stolen status was not discoverable through normal use until after '' @
      ''this arbitrary deadline; moreover, it is unconscionable to charge any restocking fee for '' @
      ''returning a stolen product that never should have been sold in the first place.'']"

definition factual_text_11_intro :: string where
  "factual_text_11_intro =
     ''11. Harm to Plaintiff:''"

definition bullet_points_11 :: "string list" where
  "bullet_points_11 =
     [''Plaintiff relied on Amazon'' @ rsquo @ ''s representations of safety, security, and product legitimacy, '' @
      ''especially for '' @ ldquo @ ''Prime'' @ rdquo @ '' products.'',
      ''Plaintiff incurred financial, legal, and practical harm, including the inconvenience and '' @
      ''potential liability of possessing stolen goods, time and travel costs for dropping off '' @
      ''the return, and the 20% restocking fee demanded by Amazon.'']"

definition factual_text_12_intro :: string where
  "factual_text_12_intro =
     ''12. Amazon'' @ rsquo @ ''s Role and Representations:''"

definition bullet_points_12 :: "string list" where
  "bullet_points_12 =
     [''By labeling the Pixel 7A purchase with '' @ ldquo @ ''Prime,'' @ rdquo @ '' Amazon effectively represented to Plaintiff '' @
      ''that the item was vetted or at least subject to certain quality and authenticity controls.'',
      ''Plaintiff contends Amazon either owned the device before sale (as part of its Fulfillment by '' @
      ''Amazon stock) or acted as a primary facilitator, thus materially controlling the transaction.'',
      ''In numerous marketing statements, Amazon promotes its marketplace as safe and reliable, '' @
      ''guaranteeing customers they can '' @ ldquo @ ''buy with confidence'' @ rdquo @ '' under programs such as '' @ ldquo @ ''A-to-Z Guarantee.'' @ rdquo @ '' '' @
      ''However, these assurances proved hollow in Plaintiff'' @ rsquo @ ''s case.'']"

definition causes_of_action_intro :: string where
  "causes_of_action_intro =
     ''Plaintiff realleges and incorporates by reference each of the preceding paragraphs as though '' @
     ''fully set forth herein.''"

definition count1_text_13 :: string where
  "count1_text_13 =
     ''13. The Washington Consumer Protection Act ('' @ ldquo @ ''WCPA'' @ rdquo @ ''), codified at RCW 19.86, '' @
     ''prohibits unfair or deceptive acts or practices in the conduct of trade or commerce.''"

definition count1_text_14 :: string where
  "count1_text_14 =
     ''14. Defendant, by enabling the sale of stolen goods under the Amazon Prime program and by '' @
     ''imposing an unconscionable restocking fee when the item was finally discovered to be stolen, '' @
     ''committed one or more unfair or deceptive acts or practices likely to mislead a reasonable '' @
     ''consumer.''"

definition count1_text_15 :: string where
  "count1_text_15 =
     ''15. Case Law Support:<br/>'' @
     bullet @ '' <i>Hangman Ridge Training Stables, Inc. v. Safeco Title Ins. Co.</i>, 105 Wn.2d 778, '' @
     ''784'' @ endash @ ''85 (1986) (stating the elements for a private action under the WCPA, including unfair '' @
     ''or deceptive acts, occurring in trade or commerce, that affect the public interest, and '' @
     ''cause injury).<br/>'' @
     bullet @ '' <i>Klem v. Washington Mut. Bank</i>, 176 Wn.2d 771, 787 (2013) (affirming that an act '' @
     ''need only have the capacity to deceive a substantial portion of the public to violate the CPA).''"

definition count1_text_16 :: string where
  "count1_text_16 =
     ''16. Amazon'' @ rsquo @ ''s acts and omissions proximately caused injury to Plaintiff'' @ rsquo @ ''s business or property, '' @
     ''including monetary loss and other damages, thus violating RCW 19.86.020.''"

definition count1_text_17 :: string where
  "count1_text_17 =
     ''17. Pursuant to RCW 19.86.090, Plaintiff seeks actual damages, treble damages up to statutory '' @
     ''limits, and reasonable attorneys'' @ rsquo @ '' fees and costs.''"

definition count2_text_18 :: string where
  "count2_text_18 =
     ''18. Under RCW 62A.2-314, every contract for the sale of goods includes an implied warranty '' @
     ''of merchantability, which ensures the product is fit for the ordinary purposes for which goods '' @
     ''of that kind are used, and that the product is lawfully sold (not stolen).''"

definition count2_text_19 :: string where
  "count2_text_19 =
     ''19. By advertising and fulfilling the sale of a stolen Google Pixel 7A, Defendant breached '' @
     ''the implied warranty of merchantability, as stolen merchandise cannot be lawfully resold '' @
     ''and is inherently unfit for normal ownership and use.''"

definition count2_text_20 :: string where
  "count2_text_20 =
     ''20. Case Law Support:<br/>'' @
     bullet @ '' <i>Baughn v. Honda Motor Co., Ltd.</i>, 107 Wn.2d 127, 151 (1986) (discussing implied warranties '' @
     ''in the context of consumer goods).<br/>'' @
     bullet @ '' <i>Touchet Valley Grain Growers, Inc. v. Opp &amp; Seibold Gen. Constr., Inc.</i>, 119 Wn.2d '' @
     ''334, 341 (1992) (outlining the scope of implied warranties under Washington'' @ rsquo @ ''s Uniform Commercial Code).''"

definition count2_text_21 :: string where
  "count2_text_21 =
     ''21. As a direct and proximate result of Defendant'' @ rsquo @ ''s breach, Plaintiff suffered damages in '' @
     ''an amount to be proven at trial.''"

definition count3_text_22 :: string where
  "count3_text_22 =
     ''22. Defendant owed a duty of care to Plaintiff as a consumer who relied on Defendant'' @ rsquo @ ''s '' @
     ''platform and '' @ ldquo @ ''Prime'' @ rdquo @ '' services. Given Amazon'' @ rsquo @ ''s representations of safety and security, '' @
     ''it had a duty to prevent the sale of stolen goods or at least conduct reasonable checks.''"

definition count3_text_23 :: string where
  "count3_text_23 =
     ''23. Defendant breached this duty by failing to implement adequate inventory control, '' @
     ''screening, or verification processes to ensure that items sold or fulfilled via Amazon '' @
     ''Prime were not stolen property.''"

definition count3_text_24 :: string where
  "count3_text_24 =
     ''24. Case Law Support:<br/>'' @
     bullet @ '' <i>Mbewe v. Amazon.com, Inc.</i>, No. 2:18-cv-00848-RAJ, 2019 WL 2994693 (W.D. Wash. July 9, 2019) '' @
     ''(while not a final published opinion on negligence, referencing Amazon'' @ rsquo @ ''s potential duty of care '' @
     ''when fulfilling goods through its marketplace).<br/>'' @
     bullet @ '' <i>Erie Ins. Co. v. Amazon.com, Inc.</i>, 925 F.3d 135 (4th Cir. 2019) (persuasive authority from '' @
     ''another Circuit analyzing Amazon'' @ rsquo @ ''s responsibilities as a seller or facilitator).''"

definition count3_text_25 :: string where
  "count3_text_25 =
     ''25. Plaintiff relied on Amazon'' @ rsquo @ ''s statements and '' @ ldquo @ ''Prime'' @ rdquo @ '' labeling, believing the product was '' @
     ''legitimate and non-stolen. Plaintiff would not have purchased the phone had he known it was stolen.''"

definition count3_text_26 :: string where
  "count3_text_26 =
     ''26. This reliance was justifiable given Amazon'' @ rsquo @ ''s longstanding marketing as a trusted '' @
     ''e-commerce platform. Defendant'' @ rsquo @ ''s negligent conduct directly and proximately caused harm '' @
     ''to Plaintiff, including but not limited to the cost of the phone, the time and expense of '' @
     ''the forced return, and the imposed restocking fee.''"

definition damages_text :: string where
  "damages_text =
     ''WHEREFORE, Plaintiff respectfully requests judgment in his favor as follows:''"

definition bullet_points_damages :: "string list" where
  "bullet_points_damages =
     [''1. Compensatory Damages: For all losses, including but not limited to the purchase price '' @
      ''of the Pixel 7A, related fees, costs incurred to return the stolen device, and any other '' @
      ''economic losses.'',
      ''2. Treble Damages: As allowed under RCW 19.86.090 for violations of the Washington '' @
      ''Consumer Protection Act, up to the statutory maximum.'',
      ''3. Injunctive Relief: <br/>'' @
      bullet @ '' Enjoining Defendant from imposing restocking fees on products that turn out to be stolen.<br/>'' @
      bullet @ '' Requiring Defendant to improve inventory and fulfillment procedures to prevent future sales '' @
      ''of stolen property.'',
      ''4. Attorneys'' @ rsquo @ '' Fees and Costs: Pursuant to RCW 19.86.090 (for CPA violations) and any other '' @
      ''applicable provision of law.'',
      ''5. Pre- and Post-Judgment Interest: As permitted by law.'',
      ''6. Such Other and Further Relief as the Court deems just, equitable, and proper.'']"

definition jury_text :: string where
  "jury_text =
     ''Pursuant to CR 38 of the Washington Superior Court Civil Rules, Plaintiff demands '' @
     ''trial by jury on all issues so triable.''"

definition prayer_text :: string where
  "prayer_text =
     ''WHEREFORE, Plaintiff, Bo Shang, prays for judgment against Defendant, Amazon.com, Inc., '' @
     ''in an amount to be proven at trial, including but not limited to compensatory and statutory '' @
     ''damages, along with equitable relief, interest, costs, and attorneys'' @ rsquo @ '' fees (if allowed by '' @
     ''law), and for such other relief as this Court deems just and proper.''"

definition signature_block :: string where
  "signature_block =
     ''DATED this 4 day of Feb, 2025.<br/><br/>'' @
     ''Respectfully submitted,<br/><br/>'' @
     ''__________________________<br/>'' @
     ''Bo Shang (Pro Se)<br/>'' @
     ''10 McCafferty Way<br/>'' @
     ''781-999-4101<br/>'' @
     ''bo@shang.software<br/>'' @
     ''Pro Se''"

subsection \<open>The story, statement by statement\<close>

definition complaint_body :: "(string \<Rightarrow> paragraph_style) \<Rightarrow> stmt list" where
  "complaint_body styles =
    [Append (Paragraph ''SUPERIOR COURT OF WASHINGTON<br/>FOR KING COUNTY'' (style_title styles)),
     Append (Spacer 1 4),
     Append (Paragraph
        (''BO SHANG, an individual,<br/>Plaintiff,<br/><br/>v.<br/><br/>'' @
         ''AMAZON.COM, INC., a Delaware corporation,<br/>Defendant.<br/><br/>'' @
         ''Case No. __________'')
        (style_paragraph_centered styles)),
     Append (Spacer 1 12),
     Append (Paragraph ''COMPLAINT FOR DAMAGES, INJUNCTIVE RELIEF, AND OTHER RELIEF'' (style_subtitle styles)),
     Append (Spacer 1 24),
     Append (Paragraph ''I. INTRODUCTION'' (style_heading styles)),
     Append (Paragraph intro_text_1 (style_paragraph styles)),
     ForAppendBullet bullet_points_intro_1 (style_bulleted_list styles),
     Append (Paragraph intro_text_2 (style_paragraph styles)),
     Append (Paragraph ''II. JURISDICTION AND VENUE'' (style_heading styles)),
     Append (Paragraph jurisdiction_text_3 (style_paragraph styles)),
     Append (Paragraph jurisdiction_text_4 (style_paragraph styles)),
     Append (Paragraph jurisdiction_text_5 (style_paragraph styles)),
     Append (Paragraph ''III. PARTIES'' (style_heading styles)),
     Append (Paragraph parties_text_6 (style_paragraph styles)),
     Append (Paragraph parties_text_7 (style_paragraph styles)),
     Append (Paragraph ''IV. FACTUAL BACKGROUND'' (style_heading styles)),
     Append (Paragraph factual_text_8_intro (style_paragraph styles)),
     ForAppendBullet bullet_points_8 (style_bulleted_list styles),
     Append (Paragraph factual_text_9_intro (style_paragraph styles)),
     ForAppendBullet bullet_points_9 (style_bulleted_list styles),
     Append (Paragraph factual_text_10_intro (style_paragraph styles)),
     ForAppendBullet bullet_points_10 (style_bulleted_list styles),
     Append (Paragraph factual_text_11_intro (style_paragraph styles)),
     ForAppendBullet bullet_points_11 (style_bulleted_list styles),
     Append (Paragraph factual_text_12_intro (style_paragraph styles)),
     ForAppendBullet bullet_points_12 (style_bulleted_list styles),
     Append (Paragraph ''V. CAUSES OF ACTION'' (style_heading styles)),
     Append (Paragraph causes_of_action_intro (style_paragraph styles)),
     Append (Paragraph (''COUNT I '' @ endash @ '' VIOLATION OF THE WASHINGTON CONSUMER PROTECTION ACT (RCW 19.86)'') (style_heading styles)),
     Append (Paragraph count1_text_13 (style_paragraph styles)),
     Append (Paragraph count1_text_14 (style_paragraph styles)),
     Append (Paragraph count1_text_15 (style_paragraph styles)),
     Append (Paragraph count1_text_16 (style_paragraph styles)),
     Append (Paragraph count1_text_17 (style_paragraph styles)),
     Append (Paragraph (''COUNT II '' @ endash @ '' BREACH OF IMPLIED WARRANTY OF MERCHANTABILITY (RCW 62A.2-314)'') (style_heading styles)),
     Append (Paragraph count2_text_18 (style_paragraph styles)),
     Append (Paragraph count2_text_19 (style_paragraph styles)),
     Append (Paragraph count2_text_20 (style_paragraph styles)),
     Append (Paragraph count2_text_21 (style_paragraph styles)),
     Append (Paragraph (''COUNT III '' @ endash @ '' NEGLIGENCE / NEGLIGENT MISREPRESENTATION'') (style_heading styles)),
     Append (Paragraph count3_text_22 (style_paragraph styles)),
     Append (Paragraph count3_text_23 (style_paragraph styles)),
     Append (Paragraph count3_text_24 (style_paragraph styles)),
     Append (Paragraph count3_text_25 (style_paragraph styles)),
     Append (Paragraph count3_text_26 (style_paragraph styles)),
     Append (Paragraph ''VI. DAMAGES AND RELIEF SOUGHT'' (style_heading styles)),
     Append (Paragraph damages_text (style_paragraph styles)),
     ForAppendBullet bullet_points_damages (style_bulleted_list styles),
     Append (Paragraph ''VII. JURY DEMAND'' (style_heading styles)),
     Append (Paragraph jury_text (style_paragraph styles)),
     Append (Paragraph ''PRAYER FOR RELIEF'' (style_heading styles)),
     Append (Paragraph prayer_text (style_paragraph styles)),
     Append (Spacer 1 12),
     Append (Paragraph signature_block (style_paragraph styles)),
     Append (PageBreak),
     Append (Paragraph ''EXHIBIT 1:'' (style_heading styles)),
     Append (Spacer 1 12),
     Append (Paragraph
        (''Placeholder for Exhibit 1 content (e.g., documentation from manufacturer, mobile carrier, '' @
         ''police report, or other source).'')
        (style_paragraph styles)),
     Append (PageBreak),
     Append (Paragraph ''EXHIBIT 2:'' (style_heading styles)),
     Append (Spacer 1 12),
     Append (Paragraph ''Placeholder for Exhibit 2 content.'' (style_paragraph styles)),
     Append (PageBreak),
     Append (Paragraph ''EXHIBIT 3:'' (style_heading styles)),
     Append (Spacer 1 12),
     Append (Paragraph ''Placeholder for Exhibit 3 content.'' (style_paragraph styles)),
     Append (PageBreak),
     Append (Paragraph ''EXHIBIT 4:'' (style_heading styles)),
     Append (Spacer 1 12),
     Append (Paragraph ''Placeholder for Exhibit 4 content.'' (style_paragraph styles))]"

subsection \<open>The generator and its entry point\<close>

definition civil_action_document :: "externals \<Rightarrow> string \<Rightarrow> built" where
  "civil_action_document ext output_filename =
     (let doc = \<lparr>filename = output_filename, pagesize = LETTER,
                 leftMargin = 1 * inch, rightMargin = 1 * inch,
                 topMargin = 0.75 * inch, bottomMargin = 0.75 * inch,
                 title = Some ''Civil Action Complaint'',
                 author = Some ''Bo Shang'',
                 subject = Some ''Complaint for Damages, Injunctive Relief, and Other Relief''\<rparr>;
          styles = getSampleStyleSheet ext;
          story = run_body (complaint_body styles) []
      in \<lparr>b_doc = doc, b_styles = complaint_styles styles, b_story = story\<rparr>)"

definition generate_civil_action_pdf ::
  "externals \<Rightarrow> string \<Rightarrow> world \<Rightarrow> (exn \<times> world) + world" where
  "generate_civil_action_pdf ext output_filename w =
     (let d = civil_action_document ext output_filename
      in case doc_build ext (b_doc d) (b_story d) w of
           Inl raised \<Rightarrow> Inl raised
         | Inr w' \<Rightarrow> Inr (print w' (''PDF generated successfully: '' @ output_filename)))"

text \<open>
  \<open>main()\<close> of gen_complaint.py; \<open>argv\<close> is \<open>sys.argv\<close>, the script name first.
  \<open>output_file\<close> is the value of the local variable of that name when the generator
  is called: the default, replaced by \<open>sys.argv[1]\<close> when \<open>len(sys.argv) > 1\<close>.
\<close>

definition output_file :: "string list \<Rightarrow> string" where
  "output_file argv =
     (let output_file = ''CivilActionComplaint.pdf''
      in if length argv > 1 then argv ! 1 else output_file)"

definition complaint_main :: "externals \<Rightarrow> string list \<Rightarrow> world \<Rightarrow> (exn \<times> world) + world" where
  "complaint_main ext argv w = generate_civil_action_pdf ext (output_file argv) w"

section \<open>gen_cover.py\<close>

text \<open>
  The local names of \<open>create_civil_cover_sheet\<close>, with the prefix \<open>cover_\<close> where the
  complaint generator has a local of the same name.
\<close>

definition style_normal :: "(string \<Rightarrow> paragraph_style) \<Rightarrow> paragraph_style" where
  "style_normal styles = styles ''Normal''"

definition cover_style_heading :: "(string \<Rightarrow> paragraph_style) \<Rightarrow> paragraph_style" where
  "cover_style_heading styles = styles ''Heading1''"

definition style_subheading :: "(string \<Rightarrow> paragraph_style) \<Rightarrow> paragraph_style" where
  "style_subheading styles = styles ''Heading2''"

definition cover_style_title :: "(string \<Rightarrow> paragraph_style) \<Rightarrow> paragraph_style" where
  "cover_style_title styles =
     ParagraphStyle ''CoverSheetTitle'' (Some (cover_style_heading styles))
       [(''fontSize'', Num 14), (''leading'', Num 18), (''alignment'', Num 1),
        (''spaceAfter'', Num 10)]"

definition style_section :: "(string \<Rightarrow> paragraph_style) \<Rightarrow> paragraph_style" where
  "style_section styles =
     ParagraphStyle ''CoverSheetSection'' (Some (style_subheading styles))
       [(''fontSize'', Num 12), (''leading'', Num 14), (''spaceBefore'', Num 12),
        (''spaceAfter'', Num 4)]"

definition style_label :: "(string \<Rightarrow> paragraph_style) \<Rightarrow> paragraph_style" where
  "style_label styles =
     ParagraphStyle ''LabelStyle'' (Some (style_normal styles))
       [(''fontSize'', Num 10), (''leading'', Num 12), (''textColor'', Color ''black''),
        (''spaceAfter'', Num 2)]"

definition style_field :: "(string \<Rightarrow> paragraph_style) \<Rightarrow> paragraph_style" where
  "style_field styles =
     ParagraphStyle ''FieldStyle'' (Some (style_normal styles))
       [(''fontSize'', Num 10), (''leading'', Num 12), (''textColor'', Color ''black''),
        (''spaceAfter'', Num 5)]"

text \<open>
  The styles \<open>create_civil_cover_sheet\<close> constructs itself, and all the styles it binds
  to local variables (three taken from the sample stylesheet, then its own), in the
  order of definition.
\<close>

definition cover_custom_styles :: "(string \<Rightarrow> paragraph_style) \<Rightarrow> paragraph_style list" where
  "cover_custom_styles styles =
     [cover_style_title styles, style_section styles, style_label styles, style_field styles]"

definition cover_styles :: "(string \<Rightarrow> paragraph_style) \<Rightarrow> paragraph_style list" where
  "cover_styles styles =
     [style_normal styles, cover_style_heading styles, style_subheading styles] @
     cover_custom_styles styles"

subsection \<open>Tables\<close>

definition case_info_data :: "(string \<Rightarrow> paragraph_style) \<Rightarrow> flowable list list" where
  "case_info_data styles =
     [[Paragraph ''<b>Case Number:</b>'' (style_label styles),
       Paragraph ''___________ (Assigned by Clerk)'' (style_field styles)],
      [Paragraph ''<b>Case Title:</b>'' (style_label styles),
       Paragraph ''Bo Shang v. Amazon.com, Inc.'' (style_field styles)],
      [Paragraph ''<b>Date of Filing:</b>'' (style_label styles),
       Paragraph ''February 4, 2025'' (style_field styles)],
      [Paragraph ''<b>Judge Assigned (if known):</b>'' (style_label styles),
       Paragraph '''' (style_field styles)]]"

definition case_info_table :: "(string \<Rightarrow> paragraph_style) \<Rightarrow> flowable" where
  "case_info_table styles =
     setStyle (Table (case_info_data styles) ''LEFT'' [2 * inch, 4 * inch] [])
       (TableStyle
         [VALIGN (0, 0) (-1, -1) ''TOP'',
          LINEBELOW (0, 0) (-1, -1) 0.25 (Color ''black''),
          BOTTOMPADDING (0, 0) (-1, -1) 6])"

definition plaintiff_data :: "(string \<Rightarrow> paragraph_style) \<Rightarrow> flowable list list" where
  "plaintiff_data styles =
     [[Paragraph ''<b>Plaintiff Name(s):</b>'' (style_label styles),
       Paragraph ''1)  Bo Shang'' (style_field styles)],
      [Paragraph ''<b>Plaintiff Contact Info:</b>'' (style_label styles),
       Paragraph
         (''10 McCafferty Way<br/>'' @
          ''Phone: 781-999-4101<br/>'' @
          ''Email: bo@shang.software'')
         (style_field styles)]]"

definition plaintiff_table :: "(string \<Rightarrow> paragraph_style) \<Rightarrow> flowable" where
  "plaintiff_table styles =
     setStyle (Table (plaintiff_data styles) ''LEFT'' [2 * inch, 4 * inch] [])
       (TableStyle
         [VALIGN (0, 0) (-1, -1) ''TOP'',
          LINEBELOW (0, 0) (-1, -1) 0.25 (Color ''black''),
          BOTTOMPADDING (0, 0) (-1, -1) 6])"

definition defendant_data :: "(string \<Rightarrow> paragraph_style) \<Rightarrow> flowable list list" where
  "defendant_data styles =
     [[Paragraph ''<b>Defendant Name(s):</b>'' (style_label styles),
       Paragraph ''1)  Amazon.com, Inc.'' (style_field styles)],
      [Paragraph ''<b>Defendant Principal Address:</b>'' (style_label styles),
       Paragraph
         (''410 Terry Avenue North<br/>'' @
          ''Seattle, WA 98109'')
         (style_field styles)]]"

definition defendant_table :: "(string \<Rightarrow> paragraph_style) \<Rightarrow> flowable" where
  "defendant_table styles =
     setStyle (Table (defendant_data styles) ''LEFT'' [2 * inch, 4 * inch] [])
       (TableStyle
         [VALIGN (0, 0) (-1, -1) ''TOP'',
          LINEBELOW (0, 0) (-1, -1) 0.25 (Color ''black''),
          BOTTOMPADDING (0, 0) (-1, -1) 6])"

definition causes_text :: string where
  "causes_text =
     ''\<newline>'' @
     ''    1. Violation of the Washington Consumer Protection Act (RCW 19.86)\<newline>'' @
     ''    2. Breach of Implied Warranty of Merchantability (RCW 62A.2-314)\<newline>'' @
     ''    3. Negligence / Negligent Misrepresentation\<newline>'' @
     ''    4. Damages, injunctive relief, attorneys'' @ rsquo @ '' fees (if allowed), and other relief\<newline>'' @
     ''    ''"

definition case_type_data :: "(string \<Rightarrow> paragraph_style) \<Rightarrow> flowable list list" where
  "case_type_data styles =
     [[Paragraph ''<b>Case Type:</b>'' (style_label styles),
       Paragraph ''Civil - Consumer Protection / Contract / Negligence'' (style_field styles)],
      [Paragraph ''<b>Relief Sought:</b>'' (style_label styles),
       Paragraph
         (''Compensatory and statutory damages; injunctive relief; attorneys'' @ rsquo @ '' fees (if permitted); '' @
          ''and other appropriate relief as detailed in the Complaint.'')
         (style_field styles)]]"

definition case_type_table :: "(string \<Rightarrow> paragraph_style) \<Rightarrow> flowable" where
  "case_type_table styles =
     setStyle (Table (case_type_data styles) ''LEFT'' [2 * inch, 4 * inch] [])
       (TableStyle
         [VALIGN (0, 0) (-1, -1) ''TOP'',
          LINEBELOW (0, 0) (-1, -1) 0.25 (Color ''black''),
          BOTTOMPADDING (0, 0) (-1, -1) 6])"

definition pro_se_data :: "(string \<Rightarrow> paragraph_style) \<Rightarrow> flowable list list" where
  "pro_se_data styles =
     [[Paragraph ''<b>Filing Party:</b>'' (style_label styles),
       Paragraph ''Plaintiff, Pro Se'' (style_field styles)],
      [Paragraph ''<b>Attorney/Pro Se Name:</b>'' (style_label styles),
       Paragraph ''Pro Se: Bo Shang'' (style_field styles)],
      [Paragraph ''<b>Signature / Date:</b>'' (style_label styles),
       Paragraph ''______________________________  Dated: February 4, 2025''
         (style_field styles)]]"

definition pro_se_table :: "(string \<Rightarrow> paragraph_style) \<Rightarrow> flowable" where
  "pro_se_table styles =
     setStyle (Table (pro_se_data styles) ''LEFT'' [2 * inch, 4 * inch] [])
       (TableStyle
         [VALIGN (0, 0) (-1, -1) ''TOP'',
          LINEBELOW (0, 0) (-1, 0) 0.25 (Color ''black''),
          BOTTOMPADDING (0, 0) (-1, -1) 6])"

subsection \<open>The content list, statement by statement\<close>

definition cover_body :: "(string \<Rightarrow> paragraph_style) \<Rightarrow> stmt list" where
  "cover_body styles =
    [Append (Paragraph ''Superior Court of Washington\<newline>For King County'' (cover_style_title styles)),
     Append (Paragraph ''Civil Case Cover Sheet'' (style_section styles)),
     Append (Spacer 1 (0.2 * inch)),
     Append (case_info_table styles),
     Append (Spacer 1 (0.3 * inch)),
     Append (Paragraph ''Plaintiff Information'' (style_section styles)),
     Append (plaintiff_table styles),
     Append (Spacer 1 (0.3 * inch)),
     Append (Paragraph ''Defendant Information'' (style_section styles)),
     Append (defendant_table styles),
     Append (Spacer 1 (0.3 * inch)),
     Append (Paragraph ''Nature of the Suit / Cause of Action'' (style_section styles)),
     Append (Paragraph (strip causes_text) (style_normal styles)),
     Append (Spacer 1 (0.3 * inch)),
     Append (case_type_table styles),
     Append (Spacer 1 (0.3 * inch)),
     Append (Paragraph ''Attorney / Pro Se Information'' (style_section styles)),
     Append (pro_se_table styles)]"

subsection \<open>The generator and its entry point\<close>

definition cover_sheet_document :: "externals \<Rightarrow> string \<Rightarrow> built" where
  "cover_sheet_document ext output_filename =
     (let styles = getSampleStyleSheet ext;
          doc = \<lparr>filename = output_filename, pagesize = LETTER,
                 leftMargin = 72, rightMargin = 72, topMargin = 72, bottomMargin = 72,
                 title = None, author = None, subject = None\<rparr>;
          content = run_body (cover_body styles) []
      in \<lparr>b_doc = doc, b_styles = cover_styles styles, b_story = content\<rparr>)"

definition create_civil_cover_sheet ::
  "externals \<Rightarrow> string \<Rightarrow> world \<Rightarrow> (exn \<times> world) + world" where
  "create_civil_cover_sheet ext output_filename w =
     (let d = cover_sheet_document ext output_filename
      in case doc_build ext (b_doc d) (b_story d) w of
           Inl raised \<Rightarrow> Inl raised
         | Inr w' \<Rightarrow> Inr (print w' (''PDF generated successfully: '' @ output_filename)))"

text \<open>
  The \<open>__main__\<close> block of gen_cover.py: the file name is a literal; \<open>sys.argv\<close> is not
  read (the module does not import \<open>sys\<close>).
\<close>

definition cover_main :: "externals \<Rightarrow> string list \<Rightarrow> world \<Rightarrow> (exn \<times> world) + world" where
  "cover_main ext argv w = create_civil_cover_sheet ext ''CivilActionCoverSheet.pdf'' w"

section \<open>gen_fee_waiver.py\<close>

text \<open>
  \<open>draw_multiline_text(c, text, x, y, max_width)\<close>, a closure over \<open>line_spacing\<close>: the
  loop over the wrapped lines draws each one and moves \<open>y\<close> down; the final \<open>y\<close> is
  returned, and the canvas has been drawn on.
\<close>

fun draw_lines :: "real \<Rightarrow> string list \<Rightarrow> canvas \<Rightarrow> real \<Rightarrow> real \<Rightarrow> canvas \<times> real" where
  "draw_lines line_spacing [] c x y = (c, y)"
| "draw_lines line_spacing (line # lines) c x y =
     draw_lines line_spacing lines (drawString c x y line) x (y - line_spacing)"

definition draw_multiline_text ::
  "externals \<Rightarrow> real \<Rightarrow> canvas \<Rightarrow> string \<Rightarrow> real \<Rightarrow> real \<Rightarrow> real \<Rightarrow> canvas \<times> real" where
  "draw_multiline_text ext line_spacing c text x y max_width =
     (let lines = simpleSplit ext text ''Times-Roman'' 12 max_width
      in draw_lines line_spacing lines c x y)"

definition text_court :: string where
  "text_court =
     ''Superior Court of Washington\<newline>'' @
     ''County of King\<newline>'' @
     ''Case Number: FW25-000155 SEA\<newline>'' @
     ''Case Title: SHANG VS AMAZON INC\<newline>''"

definition text_statement :: string where
  "text_statement =
     ''I, the undersigned, hereby request a waiver of fees for the above-referenced case. '' @
     ''I am currently receiving MA Medicaid benefits and am unable to pay the court fees '' @
     ''without substantial hardship to myself and/or my dependents.\<newline>\<newline>'' @
     ''I declare that the following information is true and complete to the best of my knowledge:\<newline>\<newline>'' @
     ''1. Full Name of Applicant: Bo Shang\<newline>'' @
     ''2. Address: 10 McCafferty Way, Burlington MA 01803\<newline>'' @
     ''3. Phone Number: 781-999-4101\<newline>'' @
     ''4. Date of Birth: 06/06/1988\<newline>'' @
     ''5. Government Assistance Received: MA Medicaid (Active)\<newline>\<newline>'' @
     ''I understand that by requesting this fee waiver, the Court may require additional documentation '' @
     ''in support of my financial situation and my receipt of government benefits. '' @
     ''I agree to provide such documentation if requested.\<newline>\<newline>'' @
     ''Under penalty of perjury under the laws of the State of Washington, I certify that '' @
     ''the information provided in this request is true and correct.''"

text \<open>The canvas as it stands when \<open>pdf.save()\<close> is called.\<close>

definition fee_waiver_canvas :: "externals \<Rightarrow> string \<Rightarrow> canvas" where
  "fee_waiver_canvas ext output_path =
     (let pdf = Canvas output_path LETTER;
          (width, height) = LETTER;
          pdf = setTitle pdf ''Fee Waiver Request - Bo Shang'';
          x_left = inch;
          y_top = height - inch;
          line_spacing = 14;
          pdf = setFont pdf ''Times-Roman'' 12;
          pdf = setFont pdf ''Times-Bold'' 14;
          pdf = drawString pdf x_left y_top ''Fee Waiver Request'';
          pdf = setFont pdf ''Times-Roman'' 12;
          y_top = y_top - 2 * line_spacing;
          (pdf, y_top) = draw_multiline_text ext line_spacing pdf text_court x_left y_top 500;
          y_top = y_top - line_spacing;
          (pdf, y_top) = draw_multiline_text ext line_spacing pdf text_statement x_left y_top 500;
          y_top = y_top - 2 * line_spacing;
          pdf = drawString pdf x_left y_top
                  ''Signature (on behalf of Applicant): _______Bo Shang______   Date: ___2/13/2025__'';
          y_top = y_top - line_spacing;
          pdf = drawString pdf x_left y_top ''Signed By: /s/ Bo Shang'';
          pdf = showPage pdf
      in pdf)"

definition generate_fee_waiver_request ::
  "externals \<Rightarrow> string \<Rightarrow> world \<Rightarrow> (exn \<times> world) + world" where
  "generate_fee_waiver_request ext output_path w =
     canvas_save ext (fee_waiver_canvas ext output_path) w"

text \<open>\<open>main()\<close> of gen_fee_waiver.py: the file name is a literal; \<open>sys.argv\<close> is not read.\<close>

definition fee_waiver_main ::
  "externals \<Rightarrow> string list \<Rightarrow> world \<Rightarrow> (exn \<times> world) + world" where
  "fee_waiver_main ext argv w =
     (let output_pdf = ''Fee_Waiver_Request_Bo_Shang.pdf''
      in case generate_fee_waiver_request ext output_pdf w of
           Inl raised \<Rightarrow> Inl raised
         | Inr w' \<Rightarrow> Inr (print w' (''PDF generated and saved as: '' @ abspath ext output_pdf)))"

section \<open>A concrete outside world for evaluation\<close>

text \<open>
  Two instances of the external parameters, used where a statement is evaluated at a
  concrete input: a library whose renderer yields a fixed four-byte content (its
  sample styles have no attributes, its line splitter returns the text as one line),
  and one whose renderer raises.
\<close>

definition ok_ext :: externals where
  "ok_ext =
     \<lparr>getSampleStyleSheet = (\<lambda>n. ParagraphStyle n None []),
      build = (\<lambda>doc story fs. Inr ''%PDF''),
      simpleSplit = (\<lambda>text font fsize width. [text]),
      save = (\<lambda>c fs. Inr ''%PDF''),
      abspath = (\<lambda>p. ''/work/'' @ p)\<rparr>"

definition failing_ext :: externals where
  "failing_ext =
     ok_ext\<lparr>build := (\<lambda>doc story fs. Inl (Raised ''Permission denied'', fs)),
            save := (\<lambda>c fs. Inl (Raised ''Permission denied'', fs))\<rparr>"

definition empty_world :: world where
  "empty_world = \<lparr>files = Map.empty, stdout = [], stderr = []\<rparr>"

text \<open>
  A markup check for evaluation. It rejects the text of the bullet item \<open><b>x\<close>, whose
  bold tag is never closed, as the library does, and accepts the other texts it is
  evaluated at.
\<close>

definition unclosed_bold_rejected :: "string \<Rightarrow> string option" where
  "unclosed_bold_rejected text =
     (if text = [CHR 0xE2, CHR 0x80, CHR 0xA2, CHR 0x20] @ ''<b>x''
      then Some ''Parse error: saw </para> instead of expected </b>''
      else None)"

section \<open>Stories are built by appending\<close>

lemma append_bullets_eq:
  "append_bullets items style story =
     story @ map (\<lambda>bp. Paragraph (bullet @ '' '' @ bp) style) items"
  by (induction items arbitrary: story) (simp_all add: story_append_def)

lemma bullet_loop_all_accepted:
  "list_all (\<lambda>bp. markup_error (bullet @ '' '' @ bp) = None) items \<Longrightarrow>
   bullet_loop markup_error items style story = Inr (append_bullets items style story)"
  by (induction items arbitrary: story) (simp_all add: new_Paragraph_def)

lemma bullet_loop_first_rejected:
  "list_all (\<lambda>bp. markup_error (bullet @ '' '' @ bp) = None) before \<Longrightarrow>
   markup_error (bullet @ '' '' @ bad) = Some msg \<Longrightarrow>
   bullet_loop markup_error (before @ bad # rest) style story =
     Inl (Raised msg, append_bullets before style story)"
  by (induction before arbitrary: story) (simp_all add: new_Paragraph_def)

lemma exec_appended: "exec s story = story @ appended s"
  by (cases s) (simp_all add: story_append_def append_bullets_eq)

lemma run_body_appended: "run_body body story = story @ concat (map appended body)"
  by (induction body arbitrary: story) (simp_all add: exec_appended)

lemma complaint_story_eq:
  "b_story (civil_action_document ext p) =
     concat (map appended (complaint_body (getSampleStyleSheet ext)))"
  by (simp add: civil_action_document_def Let_def run_body_appended)

lemma cover_story_eq:
  "b_story (cover_sheet_document ext p) =
     concat (map appended (cover_body (getSampleStyleSheet ext)))"
  by (simp add: cover_sheet_document_def Let_def run_body_appended)

lemma complaint_doc_filename [simp]: "filename (b_doc (civil_action_document ext p)) = p"
  by (simp add: civil_action_document_def Let_def)

lemma cover_doc_filename [simp]: "filename (b_doc (cover_sheet_document ext p)) = p"
  by (simp add: cover_sheet_document_def Let_def)

lemma complaint_doc_styles [simp]:
  "b_styles (civil_action_document ext p) = complaint_styles (getSampleStyleSheet ext)"
  by (simp add: civil_action_document_def Let_def)

lemma cover_doc_styles [simp]:
  "b_styles (cover_sheet_document ext p) = cover_styles (getSampleStyleSheet ext)"
  by (simp add: cover_sheet_document_def Let_def)

lemma bullet_lengths:
  "length bullet_points_intro_1 = 2" "length bullet_points_8 = 2"
  "length bullet_points_9 = 2" "length bullet_points_10 = 2"
  "length bullet_points_11 = 2" "length bullet_points_12 = 3"
  "length bullet_points_damages = 6"
  by (simp_all add: bullet_points_intro_1_def bullet_points_8_def bullet_points_9_def
      bullet_points_10_def bullet_points_11_def bullet_points_12_def
      bullet_points_damages_def)

lemma complaint_appended_length:
  "length (concat (map appended (complaint_body styles))) = 84"
  by (simp add: complaint_body_def bullet_lengths)

lemma cover_appended_length:
  "length (concat (map appended (cover_body styles))) = 18"
  by (simp add: cover_body_def)

section \<open>The styles carried by the blocks of a story\<close>

lemma styles_of_bullets:
  "concat (map flowable_styles (map (\<lambda>bp. Paragraph (bullet @ '' '' @ bp) s) items)) =
     replicate (length items) s"
  by (induction items) simp_all

lemma complaint_story_styles:
  "set (concat (map flowable_styles (concat (map appended (complaint_body styles))))) =
     {style_title styles, style_paragraph_centered styles, style_subtitle styles,
      style_heading styles, style_paragraph styles, style_bulleted_list styles}"
  using bullet_lengths
  by (auto simp add: complaint_body_def styles_of_bullets)

lemma cover_story_styles:
  "set (concat (map flowable_styles (concat (map appended (cover_body styles))))) =
     {cover_style_title styles, style_section styles, style_label styles,
      style_field styles, style_normal styles}"
  by (auto simp add: cover_body_def case_info_table_def case_info_data_def
      plaintiff_table_def plaintiff_data_def defendant_table_def defendant_data_def
      case_type_table_def case_type_data_def pro_se_table_def pro_se_data_def TableStyle_def)

section \<open>The file name on a canvas\<close>

lemma canvas_ops_filename:
  "setTitle (c\<lparr>c_filename := f\<rparr>) t = (setTitle c t)\<lparr>c_filename := f\<rparr>"
  "setFont (c\<lparr>c_filename := f\<rparr>) fn fs = (setFont c fn fs)\<lparr>c_filename := f\<rparr>"
  "drawString (c\<lparr>c_filename := f\<rparr>) x y s = (drawString c x y s)\<lparr>c_filename := f\<rparr>"
  "showPage (c\<lparr>c_filename := f\<rparr>) = (showPage c)\<lparr>c_filename := f\<rparr>"
  by (simp_all add: setTitle_def setFont_def drawString_def showPage_def)

lemma draw_lines_filename:
  "draw_lines ls lines (c\<lparr>c_filename := f\<rparr>) x y =
     (fst (draw_lines ls lines c x y)\<lparr>c_filename := f\<rparr>, snd (draw_lines ls lines c x y))"
proof (induction lines arbitrary: c y)
  case Nil
  show ?case by simp
next
  case (Cons line lines)
  show ?case
    by (simp only: draw_lines.simps canvas_ops_filename Cons.IH)
qed

lemma draw_multiline_text_filename:
  "draw_multiline_text ext ls (c\<lparr>c_filename := f\<rparr>) t x y mw =
     (fst (draw_multiline_text ext ls c t x y mw)\<lparr>c_filename := f\<rparr>,
      snd (draw_multiline_text ext ls c t x y mw))"
  by (simp add: draw_multiline_text_def Let_def draw_lines_filename)

lemma fee_waiver_canvas_path:
  "fee_waiver_canvas ext p1 = (fee_waiver_canvas ext p2)\<lparr>c_filename := p1\<rparr>"
proof -
  have start: "Canvas p1 LETTER = (Canvas p2 LETTER)\<lparr>c_filename := p1\<rparr>"
    by (simp add: Canvas_def)
  show ?thesis
    unfolding fee_waiver_canvas_def Let_def case_prod_beta start
    by (simp only: canvas_ops_filename draw_multiline_text_filename fst_conv snd_conv)
qed

lemma fee_waiver_canvas_filename [simp]: "c_filename (fee_waiver_canvas ext p) = p"
proof -
  have "c_filename (fee_waiver_canvas ext p) =
          c_filename ((fee_waiver_canvas ext p)\<lparr>c_filename := p\<rparr>)"
    using fee_waiver_canvas_path [of ext p p] by simp
  then show ?thesis by simp
qed

section \<open>The claims\<close>

text \<open>
  C1, as the code has it. Only the complaint generator reads its argument: called with
  one argument \<open>P\<close> it hands \<open>P\<close> to the renderer, and when the renderer returns, the
  document is at \<open>P\<close>, no other path has changed, and the line printed is
  \<open>PDF generated successfully: P\<close>. Called with no argument it does the same at
  \<open>CivilActionComplaint.pdf\<close>. The cover sheet and the fee waiver generators do not look
  at their arguments: whatever \<open>argv\<close> is, they write at \<open>CivilActionCoverSheet.pdf\<close> and
  at \<open>Fee_Waiver_Request_Bo_Shang.pdf\<close>, and print that name (the fee waiver: its
  absolute path).
\<close>

theorem output_path_of_each_generator:
  "complaint_main ext [script, P] w =
     (case build ext (b_doc (civil_action_document ext P))
             (b_story (civil_action_document ext P)) (files w) of
        Inl (e, fs') \<Rightarrow> Inl (e, w\<lparr>files := fs'\<rparr>)
      | Inr bs \<Rightarrow> Inr (w\<lparr>files := (files w)(P \<mapsto> bs),
                          stdout := stdout w @ [''PDF generated successfully: '' @ P]\<rparr>)) \<and>
   complaint_main ext [script] w =
     (case build ext (b_doc (civil_action_document ext ''CivilActionComplaint.pdf''))
             (b_story (civil_action_document ext ''CivilActionComplaint.pdf'')) (files w) of
        Inl (e, fs') \<Rightarrow> Inl (e, w\<lparr>files := fs'\<rparr>)
      | Inr bs \<Rightarrow> Inr (w\<lparr>files := (files w)(''CivilActionComplaint.pdf'' \<mapsto> bs),
                          stdout := stdout w @
                            [''PDF generated successfully: CivilActionComplaint.pdf'']\<rparr>)) \<and>
   cover_main ext argv w =
     (case build ext (b_doc (cover_sheet_document ext ''CivilActionCoverSheet.pdf''))
             (b_story (cover_sheet_document ext ''CivilActionCoverSheet.pdf'')) (files w) of
        Inl (e, fs') \<Rightarrow> Inl (e, w\<lparr>files := fs'\<rparr>)
      | Inr bs \<Rightarrow> Inr (w\<lparr>files := (files w)(''CivilActionCoverSheet.pdf'' \<mapsto> bs),
                          stdout := stdout w @
                            [''PDF generated successfully: CivilActionCoverSheet.pdf'']\<rparr>)) \<and>
   fee_waiver_main ext argv w =
     (case save ext (fee_waiver_canvas ext ''Fee_Waiver_Request_Bo_Shang.pdf'') (files w) of
        Inl (e, fs') \<Rightarrow> Inl (e, w\<lparr>files := fs'\<rparr>)
      | Inr bs \<Rightarrow> Inr (w\<lparr>files := (files w)(''Fee_Waiver_Request_Bo_Shang.pdf'' \<mapsto> bs),
                          stdout := stdout w @
                            [''PDF generated and saved as: '' @
                             abspath ext ''Fee_Waiver_Request_Bo_Shang.pdf'']\<rparr>))"
  by (simp_all add: complaint_main_def output_file_def generate_civil_action_pdf_def
      cover_main_def create_civil_cover_sheet_def fee_waiver_main_def
      generate_fee_waiver_request_def canvas_save_def Let_def doc_build_def print_def
      split: sum.splits prod.splits)

text \<open>
  C1 as stated fails: run with the one argument \<open>out.pdf\<close>, the cover sheet script and
  the fee waiver script leave \<open>out.pdf\<close> absent, write their default file, and print a
  line that does not contain \<open>out.pdf\<close>.
\<close>

theorem cover_and_fee_waiver_ignore_path_argument:
  "files (snd (run_script (cover_main ok_ext) [''gen_cover.py'', ''out.pdf''] empty_world))
     ''out.pdf'' = None \<and>
   files (snd (run_script (cover_main ok_ext) [''gen_cover.py'', ''out.pdf''] empty_world))
     ''CivilActionCoverSheet.pdf'' = Some ''%PDF'' \<and>
   stdout (snd (run_script (cover_main ok_ext) [''gen_cover.py'', ''out.pdf''] empty_world)) =
     [''PDF generated successfully: CivilActionCoverSheet.pdf''] \<and>
   files (snd (run_script (fee_waiver_main ok_ext) [''gen_fee_waiver.py'', ''out.pdf'']
     empty_world)) ''out.pdf'' = None \<and>
   files (snd (run_script (fee_waiver_main ok_ext) [''gen_fee_waiver.py'', ''out.pdf'']
     empty_world)) ''Fee_Waiver_Request_Bo_Shang.pdf'' = Some ''%PDF'' \<and>
   stdout (snd (run_script (fee_waiver_main ok_ext) [''gen_fee_waiver.py'', ''out.pdf'']
     empty_world)) = [''PDF generated and saved as: /work/Fee_Waiver_Request_Bo_Shang.pdf'']"
  by (simp add: run_script_def cover_main_def create_civil_cover_sheet_def fee_waiver_main_def
      generate_fee_waiver_request_def canvas_save_def Let_def doc_build_def print_def
      ok_ext_def empty_world_def)

text \<open>
  C2. The list a generator hands to the renderer is exactly the sequence of blocks its
  statements append, in the order of the statements: running any body of statements on
  the empty list yields the concatenation of what each statement appends; the story of
  the complaint (84 blocks) and the content of the cover sheet (18 blocks) are built
  that way; and \<open>build\<close> is called on that very list.
\<close>

theorem renderer_receives_appended_sequence:
  "run_body body [] = concat (map appended body) \<and>
   b_story (civil_action_document ext p) =
     concat (map appended (complaint_body (getSampleStyleSheet ext))) \<and>
   length (b_story (civil_action_document ext p)) = 84 \<and>
   b_story (cover_sheet_document ext p) =
     concat (map appended (cover_body (getSampleStyleSheet ext))) \<and>
   length (b_story (cover_sheet_document ext p)) = 18 \<and>
   generate_civil_action_pdf ext p w =
     (case build ext (b_doc (civil_action_document ext p))
             (concat (map appended (complaint_body (getSampleStyleSheet ext)))) (files w) of
        Inl (e, fs') \<Rightarrow> Inl (e, w\<lparr>files := fs'\<rparr>)
      | Inr bs \<Rightarrow> Inr (print (w\<lparr>files := (files w)(p \<mapsto> bs)\<rparr>)
                          (''PDF generated successfully: '' @ p))) \<and>
   create_civil_cover_sheet ext p w =
     (case build ext (b_doc (cover_sheet_document ext p))
             (concat (map appended (cover_body (getSampleStyleSheet ext)))) (files w) of
        Inl (e, fs') \<Rightarrow> Inl (e, w\<lparr>files := fs'\<rparr>)
      | Inr bs \<Rightarrow> Inr (print (w\<lparr>files := (files w)(p \<mapsto> bs)\<rparr>)
                          (''PDF generated successfully: '' @ p)))"
proof (intro conjI)
  show "run_body body [] = concat (map appended body)"
    by (simp add: run_body_appended)
  show "b_story (civil_action_document ext p) =
          concat (map appended (complaint_body (getSampleStyleSheet ext)))"
    by (rule complaint_story_eq)
  show "length (b_story (civil_action_document ext p)) = 84"
    by (simp only: complaint_story_eq complaint_appended_length)
  show "b_story (cover_sheet_document ext p) =
          concat (map appended (cover_body (getSampleStyleSheet ext)))"
    by (rule cover_story_eq)
  show "length (b_story (cover_sheet_document ext p)) = 18"
    by (simp only: cover_story_eq cover_appended_length)
  show "generate_civil_action_pdf ext p w =
     (case build ext (b_doc (civil_action_document ext p))
             (concat (map appended (complaint_body (getSampleStyleSheet ext)))) (files w) of
        Inl (e, fs') \<Rightarrow> Inl (e, w\<lparr>files := fs'\<rparr>)
      | Inr bs \<Rightarrow> Inr (print (w\<lparr>files := (files w)(p \<mapsto> bs)\<rparr>)
                          (''PDF generated successfully: '' @ p)))"
    by (simp add: generate_civil_action_pdf_def Let_def doc_build_def complaint_story_eq
        split: sum.splits prod.splits)
  show "create_civil_cover_sheet ext p w =
     (case build ext (b_doc (cover_sheet_document ext p))
             (concat (map appended (cover_body (getSampleStyleSheet ext)))) (files w) of
        Inl (e, fs') \<Rightarrow> Inl (e, w\<lparr>files := fs'\<rparr>)
      | Inr bs \<Rightarrow> Inr (print (w\<lparr>files := (files w)(p \<mapsto> bs)\<rparr>)
                          (''PDF generated successfully: '' @ p)))"
    by (simp add: create_civil_cover_sheet_def Let_def doc_build_def cover_story_eq
        split: sum.splits prod.splits)
qed

text \<open>
  C3, as the code has it. For every list of strings \<open>items\<close> and every style \<open>s\<close>:
  when the library accepts the text of every item, the bullet loop adds to the story
  exactly one Paragraph per element of \<open>items\<close>, in the order of \<open>items\<close>; the text of
  each is the bytes E2 80 A2 (U+2022) and a space followed by the element, and each
  carries the style \<open>s\<close>; what was in the story before stays in front, unchanged.
  When the library rejects the text of an item, the loop ends with that exception at
  the first such item, and the story holds one Paragraph for each item before it.
\<close>

theorem bullet_loop_one_block_per_accepted_item:
  "((\<forall>bp \<in> set items.
        markup_error ([CHR 0xE2, CHR 0x80, CHR 0xA2, CHR 0x20] @ bp) = None) \<longrightarrow>
      bullet_loop markup_error items s story =
        Inr (story @
             map (\<lambda>bp. Paragraph ([CHR 0xE2, CHR 0x80, CHR 0xA2, CHR 0x20] @ bp) s) items)) \<and>
   ((\<forall>bp \<in> set before.
        markup_error ([CHR 0xE2, CHR 0x80, CHR 0xA2, CHR 0x20] @ bp) = None) \<and>
      markup_error ([CHR 0xE2, CHR 0x80, CHR 0xA2, CHR 0x20] @ bad) = Some msg \<longrightarrow>
      bullet_loop markup_error (before @ bad # rest) s story =
        Inl (Raised msg,
             story @
             map (\<lambda>bp. Paragraph ([CHR 0xE2, CHR 0x80, CHR 0xA2, CHR 0x20] @ bp) s) before))"
proof (intro conjI impI)
  assume "\<forall>bp \<in> set items.
            markup_error ([CHR 0xE2, CHR 0x80, CHR 0xA2, CHR 0x20] @ bp) = None"
  then have "list_all (\<lambda>bp. markup_error (bullet @ '' '' @ bp) = None) items"
    by (simp add: list_all_iff bullet_def)
  then have "bullet_loop markup_error items s story = Inr (append_bullets items s story)"
    by (rule bullet_loop_all_accepted)
  then show "bullet_loop markup_error items s story =
               Inr (story @
                    map (\<lambda>bp. Paragraph ([CHR 0xE2, CHR 0x80, CHR 0xA2, CHR 0x20] @ bp) s)
                      items)"
    by (simp add: append_bullets_eq bullet_def)
next
  assume h: "(\<forall>bp \<in> set before.
                markup_error ([CHR 0xE2, CHR 0x80, CHR 0xA2, CHR 0x20] @ bp) = None) \<and>
             markup_error ([CHR 0xE2, CHR 0x80, CHR 0xA2, CHR 0x20] @ bad) = Some msg"
  then have ok: "list_all (\<lambda>bp. markup_error (bullet @ '' '' @ bp) = None) before"
    by (simp add: list_all_iff bullet_def)
  from h have bad: "markup_error (bullet @ '' '' @ bad) = Some msg"
    by (simp add: bullet_def)
  have "bullet_loop markup_error (before @ bad # rest) s story =
          Inl (Raised msg, append_bullets before s story)"
    using ok bad by (rule bullet_loop_first_rejected)
  then show "bullet_loop markup_error (before @ bad # rest) s story =
               Inl (Raised msg,
                    story @
                    map (\<lambda>bp. Paragraph ([CHR 0xE2, CHR 0x80, CHR 0xA2, CHR 0x20] @ bp) s)
                      before)"
    by (simp add: append_bullets_eq bullet_def)
qed

text \<open>
  C3 at the items \<open>ok\<close>, \<open>fine\<close>, all accepted, and at \<open>ok\<close>, \<open><b>x\<close>, \<open>never\<close>,
  where the second is rejected.
\<close>

theorem bullet_loop_one_block_per_accepted_item_witness:
  "unclosed_bold_rejected ([CHR 0xE2, CHR 0x80, CHR 0xA2, CHR 0x20] @ ''ok'') = None \<and>
   unclosed_bold_rejected ([CHR 0xE2, CHR 0x80, CHR 0xA2, CHR 0x20] @ ''fine'') = None \<and>
   unclosed_bold_rejected ([CHR 0xE2, CHR 0x80, CHR 0xA2, CHR 0x20] @ ''<b>x'') =
     Some ''Parse error: saw </para> instead of expected </b>'' \<and>
   bullet_loop unclosed_bold_rejected [''ok'', ''fine'']
       (style_bulleted_list (getSampleStyleSheet ok_ext)) [Spacer 1 4] =
     Inr [Spacer 1 4,
          Paragraph [CHR 0xE2, CHR 0x80, CHR 0xA2, CHR 0x20, CHR ''o'', CHR ''k'']
            (style_bulleted_list (getSampleStyleSheet ok_ext)),
          Paragraph [CHR 0xE2, CHR 0x80, CHR 0xA2, CHR 0x20, CHR ''f'', CHR ''i'', CHR ''n'',
                     CHR ''e'']
            (style_bulleted_list (getSampleStyleSheet ok_ext))] \<and>
   bullet_loop unclosed_bold_rejected ([''ok''] @ ''<b>x'' # [''never''])
       (style_bulleted_list (getSampleStyleSheet ok_ext)) [Spacer 1 4] =
     Inl (Raised ''Parse error: saw </para> instead of expected </b>'',
          [Spacer 1 4,
           Paragraph [CHR 0xE2, CHR 0x80, CHR 0xA2, CHR 0x20, CHR ''o'', CHR ''k'']
             (style_bulleted_list (getSampleStyleSheet ok_ext))])"
  using bullet_loop_one_block_per_accepted_item
    [where markup_error = unclosed_bold_rejected and items = "[''ok'', ''fine'']"
       and before = "[''ok'']" and bad = "''<b>x''" and rest = "[''never'']"
       and msg = "''Parse error: saw </para> instead of expected </b>''"
       and s = "style_bulleted_list (getSampleStyleSheet ok_ext)" and story = "[Spacer 1 4]"]
  by (simp add: unclosed_bold_rejected_def)

text \<open>
  C3 as stated fails: on the items \<open>ok\<close>, \<open><b>x\<close>, \<open>never\<close> the loop ends with the
  exception raised for the second item, and the story holds one block, not three.
\<close>

theorem bullet_loop_stops_at_rejected_item:
  "bullet_loop unclosed_bold_rejected [''ok'', ''<b>x'', ''never'']
       (style_bulleted_list (getSampleStyleSheet ok_ext)) [] =
     Inl (Raised ''Parse error: saw </para> instead of expected </b>'',
          [Paragraph ([CHR 0xE2, CHR 0x80, CHR 0xA2, CHR 0x20] @ ''ok'')
             (style_bulleted_list (getSampleStyleSheet ok_ext))])"
  by (simp add: unclosed_bold_rejected_def new_Paragraph_def story_append_def bullet_def)

text \<open>
  C5, as the code has it. A style is defined by constructing it; nothing records the
  names in use and nothing compares them. Each generator gives every style it
  constructs a name of its own: seven distinct names in the complaint, four in the
  cover sheet.
\<close>

theorem style_names_are_distinct:
  "map name (complaint_styles styles) =
     [''TitleStyle'', ''SubtitleStyle'', ''HeadingStyle'', ''ParagraphStyle'',
      ''ParagraphIndentStyle'', ''BulletedListStyle'', ''CenteredParagraphStyle''] \<and>
   distinct (map name (complaint_styles styles)) \<and>
   map name (cover_custom_styles styles) =
     [''CoverSheetTitle'', ''CoverSheetSection'', ''LabelStyle'', ''FieldStyle''] \<and>
   distinct (map name (cover_custom_styles styles))"
  by (simp add: complaint_styles_def cover_custom_styles_def style_title_def style_subtitle_def
      style_heading_def style_paragraph_def style_paragraph_indent_def style_bulleted_list_def
      style_paragraph_centered_def cover_style_title_def style_section_def style_label_def
      style_field_def)

text \<open>
  C5 as stated fails: with \<open>style_title\<close> defined under the name \<open>TitleStyle\<close>,
  constructing a second style under that name yields a style like any other, with
  its own font size, and the first keeps its own.
\<close>

theorem second_style_of_same_name_is_accepted:
  "name (style_title (getSampleStyleSheet ok_ext)) = ''TitleStyle'' \<and>
   name (ParagraphStyle ''TitleStyle'' (Some (getSampleStyleSheet ok_ext ''Title''))
           [(''fontSize'', Num 18)]) = ''TitleStyle'' \<and>
   style_attr (ParagraphStyle ''TitleStyle'' (Some (getSampleStyleSheet ok_ext ''Title''))
                 [(''fontSize'', Num 18)]) ''fontSize'' = Some (Num 18) \<and>
   style_attr (style_title (getSampleStyleSheet ok_ext)) ''fontSize'' = Some (Num 16)"
  by (simp add: style_title_def)

text \<open>
  C6, as the code has it. Every Table block the generators build has two cells in
  every row and two column widths: these are the five tables of the cover sheet, all
  in its content list; the story of the complaint holds no table. Appending a table
  is appending to a list: it compares nothing and has no way to fail.
\<close>

theorem generator_tables_are_well_formed:
  "(b \<in> set (b_story (cover_sheet_document ext p)) \<and> b = Table data h cw cmds \<and>
      row \<in> set data \<longrightarrow> length row = 2 \<and> length cw = 2) \<and>
   set [case_info_table (getSampleStyleSheet ext), plaintiff_table (getSampleStyleSheet ext),
        defendant_table (getSampleStyleSheet ext), case_type_table (getSampleStyleSheet ext),
        pro_se_table (getSampleStyleSheet ext)]
     \<subseteq> set (b_story (cover_sheet_document ext p)) \<and>
   Table data h cw cmds \<notin> set (b_story (civil_action_document ext q)) \<and>
   story_append story t = story @ [t]"
proof (intro conjI)
  show "b \<in> set (b_story (cover_sheet_document ext p)) \<and> b = Table data h cw cmds \<and>
          row \<in> set data \<longrightarrow> length row = 2 \<and> length cw = 2"
    by (auto simp add: cover_story_eq cover_body_def
        case_info_table_def case_info_data_def
        plaintiff_table_def plaintiff_data_def defendant_table_def defendant_data_def
        case_type_table_def case_type_data_def pro_se_table_def pro_se_data_def)
  show "set [case_info_table (getSampleStyleSheet ext), plaintiff_table (getSampleStyleSheet ext),
        defendant_table (getSampleStyleSheet ext), case_type_table (getSampleStyleSheet ext),
        pro_se_table (getSampleStyleSheet ext)]
     \<subseteq> set (b_story (cover_sheet_document ext p))"
    by (simp add: cover_story_eq cover_body_def)
  show "Table data h cw cmds \<notin> set (b_story (civil_action_document ext q))"
    by (auto simp add: complaint_story_eq complaint_body_def)
  show "story_append story t = story @ [t]"
    by (simp add: story_append_def)
qed

text \<open>C6 at the case information table of the cover sheet and its second row.\<close>

theorem generator_tables_are_well_formed_witness:
  "case_info_table (getSampleStyleSheet ok_ext)
     \<in> set (b_story (cover_sheet_document ok_ext ''CivilActionCoverSheet.pdf'')) \<and>
   case_info_table (getSampleStyleSheet ok_ext) =
     Table (case_info_data (getSampleStyleSheet ok_ext)) ''LEFT'' [2 * inch, 4 * inch]
       [VALIGN (0, 0) (-1, -1) ''TOP'', LINEBELOW (0, 0) (-1, -1) 0.25 (Color ''black''),
        BOTTOMPADDING (0, 0) (-1, -1) 6] \<and>
   [Paragraph ''<b>Case Title:</b>'' (style_label (getSampleStyleSheet ok_ext)),
    Paragraph ''Bo Shang v. Amazon.com, Inc.'' (style_field (getSampleStyleSheet ok_ext))]
     \<in> set (case_info_data (getSampleStyleSheet ok_ext)) \<and>
   length [Paragraph ''<b>Case Title:</b>'' (style_label (getSampleStyleSheet ok_ext)),
           Paragraph ''Bo Shang v. Amazon.com, Inc.'' (style_field (getSampleStyleSheet ok_ext))]
     = 2 \<and>
   length [2 * inch, 4 * inch] = 2"
proof -
  have h1: "case_info_table (getSampleStyleSheet ok_ext)
     \<in> set (b_story (cover_sheet_document ok_ext ''CivilActionCoverSheet.pdf''))"
    by (simp add: cover_story_eq cover_body_def)
  have h2: "case_info_table (getSampleStyleSheet ok_ext) =
     Table (case_info_data (getSampleStyleSheet ok_ext)) ''LEFT'' [2 * inch, 4 * inch]
       [VALIGN (0, 0) (-1, -1) ''TOP'', LINEBELOW (0, 0) (-1, -1) 0.25 (Color ''black''),
        BOTTOMPADDING (0, 0) (-1, -1) 6]"
    by (simp add: case_info_table_def TableStyle_def)
  have h3: "[Paragraph ''<b>Case Title:</b>'' (style_label (getSampleStyleSheet ok_ext)),
    Paragraph ''Bo Shang v. Amazon.com, Inc.'' (style_field (getSampleStyleSheet ok_ext))]
     \<in> set (case_info_data (getSampleStyleSheet ok_ext))"
    by (simp add: case_info_data_def)
  from generator_tables_are_well_formed
    [where ext = ok_ext and p = "''CivilActionCoverSheet.pdf''"
       and b = "case_info_table (getSampleStyleSheet ok_ext)"
       and data = "case_info_data (getSampleStyleSheet ok_ext)" and h = "''LEFT''"
       and cw = "[2 * inch, 4 * inch]"
       and cmds = "[VALIGN (0, 0) (-1, -1) ''TOP'',
                    LINEBELOW (0, 0) (-1, -1) 0.25 (Color ''black''),
                    BOTTOMPADDING (0, 0) (-1, -1) 6]"
       and row = "[Paragraph ''<b>Case Title:</b>'' (style_label (getSampleStyleSheet ok_ext)),
                   Paragraph ''Bo Shang v. Amazon.com, Inc.''
                     (style_field (getSampleStyleSheet ok_ext))]"]
    h1 h2 h3
  show ?thesis by blast
qed

text \<open>
  C6 as stated fails: a table whose first row has one cell, whose second row has two
  and whose column-width list has two entries is appended like any other block, by
  \<open>story_append\<close> or as a statement of a body; nothing fails.
\<close>

theorem ragged_table_is_appended:
  "story_append [Spacer 1 4]
     (Table [[Paragraph ''a'' (style_field (getSampleStyleSheet ok_ext))],
             [Paragraph ''b'' (style_label (getSampleStyleSheet ok_ext)),
              Paragraph ''c'' (style_field (getSampleStyleSheet ok_ext))]]
        ''LEFT'' [2 * inch, 4 * inch] []) =
     [Spacer 1 4,
      Table [[Paragraph ''a'' (style_field (getSampleStyleSheet ok_ext))],
             [Paragraph ''b'' (style_label (getSampleStyleSheet ok_ext)),
              Paragraph ''c'' (style_field (getSampleStyleSheet ok_ext))]]
        ''LEFT'' [2 * inch, 4 * inch] []] \<and>
   run_body
     [Append (Table [[Paragraph ''a'' (style_field (getSampleStyleSheet ok_ext))],
                     [Paragraph ''b'' (style_label (getSampleStyleSheet ok_ext)),
                      Paragraph ''c'' (style_field (getSampleStyleSheet ok_ext))]]
                ''LEFT'' [2 * inch, 4 * inch] [])] [] =
     [Table [[Paragraph ''a'' (style_field (getSampleStyleSheet ok_ext))],
             [Paragraph ''b'' (style_label (getSampleStyleSheet ok_ext)),
              Paragraph ''c'' (style_field (getSampleStyleSheet ok_ext))]]
        ''LEFT'' [2 * inch, 4 * inch] []] \<and>
   length [Paragraph ''a'' (style_field (getSampleStyleSheet ok_ext))] \<noteq>
     length [2 * inch, 4 * inch]"
  by (simp add: story_append_def)

text \<open>
  C7, as the code has it. A Paragraph carries exactly one style, a Spacer and a
  PageBreak carry none, and every style carried by a block of a story (by a Paragraph,
  or by a Paragraph in a cell of a Table) is one of the styles the generator bound to
  a local variable before it built the story. Appending puts the block at the end of
  the list whatever the block is: it looks at no style and has no way to fail.
\<close>

theorem styles_of_story_blocks_are_defined:
  "set (concat (map flowable_styles (b_story (civil_action_document ext p))))
     \<subseteq> set (b_styles (civil_action_document ext p)) \<and>
   set (concat (map flowable_styles (b_story (cover_sheet_document ext p))))
     \<subseteq> set (b_styles (cover_sheet_document ext p)) \<and>
   flowable_styles (Paragraph t s) = [s] \<and>
   flowable_styles (Spacer wd ht) = [] \<and>
   flowable_styles PageBreak = [] \<and>
   story_append story b = story @ [b]"
proof (intro conjI)
  show "set (concat (map flowable_styles (b_story (civil_action_document ext p))))
          \<subseteq> set (b_styles (civil_action_document ext p))"
    unfolding complaint_story_eq complaint_story_styles
    by (simp add: complaint_styles_def)
  show "set (concat (map flowable_styles (b_story (cover_sheet_document ext p))))
          \<subseteq> set (b_styles (cover_sheet_document ext p))"
    unfolding cover_story_eq cover_story_styles
    by (simp add: cover_styles_def cover_custom_styles_def)
qed (simp_all add: story_append_def)

text \<open>
  C7 as stated fails: the story of the complaint holds the block \<open>Spacer(1, 4)\<close> and
  page breaks, which carry no style, and the case information table of the cover
  sheet carries two different styles.
\<close>

theorem blocks_without_exactly_one_style:
  "Spacer 1 4 \<in> set (b_story (civil_action_document ok_ext ''CivilActionComplaint.pdf'')) \<and>
   flowable_styles (Spacer 1 4) = [] \<and>
   PageBreak \<in> set (b_story (civil_action_document ok_ext ''CivilActionComplaint.pdf'')) \<and>
   flowable_styles PageBreak = [] \<and>
   case_info_table (getSampleStyleSheet ok_ext)
     \<in> set (b_story (cover_sheet_document ok_ext ''CivilActionCoverSheet.pdf'')) \<and>
   set (flowable_styles (case_info_table (getSampleStyleSheet ok_ext))) =
     {style_label (getSampleStyleSheet ok_ext), style_field (getSampleStyleSheet ok_ext)} \<and>
   style_label (getSampleStyleSheet ok_ext) \<noteq> style_field (getSampleStyleSheet ok_ext)"
proof (intro conjI)
  show "set (flowable_styles (case_info_table (getSampleStyleSheet ok_ext))) =
     {style_label (getSampleStyleSheet ok_ext), style_field (getSampleStyleSheet ok_ext)}"
    by (auto simp add: case_info_table_def case_info_data_def)
  show "style_label (getSampleStyleSheet ok_ext) \<noteq> style_field (getSampleStyleSheet ok_ext)"
    by (simp add: style_label_def style_field_def)
qed (simp_all add: complaint_story_eq complaint_body_def cover_story_eq cover_body_def)

text \<open>
  C8. When the renderer raises, the generator function returns that exception: nothing
  is printed and nothing is tried again. Run as a script, each generator then ends
  with exit status 1, the message of the exception on standard error, and standard
  output as it was.
\<close>

theorem render_error_propagates:
  "(build ext (b_doc (civil_action_document ext p)) (b_story (civil_action_document ext p))
      (files w) = Inl (Raised msg, fs') \<longrightarrow>
      generate_civil_action_pdf ext p w = Inl (Raised msg, w\<lparr>files := fs'\<rparr>)) \<and>
   (build ext (b_doc (civil_action_document ext (output_file argv)))
      (b_story (civil_action_document ext (output_file argv))) (files w) =
      Inl (Raised msg, fs') \<longrightarrow>
      run_script (complaint_main ext) argv w =
        (1, w\<lparr>files := fs', stderr := stderr w @ [msg]\<rparr>)) \<and>
   (build ext (b_doc (cover_sheet_document ext p)) (b_story (cover_sheet_document ext p))
      (files w) = Inl (Raised msg, fs') \<longrightarrow>
      create_civil_cover_sheet ext p w = Inl (Raised msg, w\<lparr>files := fs'\<rparr>)) \<and>
   (build ext (b_doc (cover_sheet_document ext ''CivilActionCoverSheet.pdf''))
      (b_story (cover_sheet_document ext ''CivilActionCoverSheet.pdf'')) (files w) =
      Inl (Raised msg, fs') \<longrightarrow>
      run_script (cover_main ext) argv w =
        (1, w\<lparr>files := fs', stderr := stderr w @ [msg]\<rparr>)) \<and>
   (save ext (fee_waiver_canvas ext p) (files w) = Inl (Raised msg, fs') \<longrightarrow>
      generate_fee_waiver_request ext p w = Inl (Raised msg, w\<lparr>files := fs'\<rparr>)) \<and>
   (save ext (fee_waiver_canvas ext ''Fee_Waiver_Request_Bo_Shang.pdf'') (files w) =
      Inl (Raised msg, fs') \<longrightarrow>
      run_script (fee_waiver_main ext) argv w =
        (1, w\<lparr>files := fs', stderr := stderr w @ [msg]\<rparr>))"
  by (simp add: run_script_def complaint_main_def generate_civil_action_pdf_def
      cover_main_def create_civil_cover_sheet_def fee_waiver_main_def
      generate_fee_waiver_request_def canvas_save_def Let_def doc_build_def)

text \<open>
  C8 at a renderer that raises \<open>Permission denied\<close>, each script run with the argument
  \<open>out.pdf\<close> in the empty world.
\<close>

theorem render_error_propagates_witness:
  "build failing_ext (b_doc (civil_action_document failing_ext ''out.pdf''))
     (b_story (civil_action_document failing_ext ''out.pdf'')) (files empty_world) =
     Inl (Raised ''Permission denied'', Map.empty) \<and>
   build failing_ext
     (b_doc (civil_action_document failing_ext (output_file [''gen.py'', ''out.pdf''])))
     (b_story (civil_action_document failing_ext (output_file [''gen.py'', ''out.pdf''])))
     (files empty_world) = Inl (Raised ''Permission denied'', Map.empty) \<and>
   build failing_ext (b_doc (cover_sheet_document failing_ext ''out.pdf''))
     (b_story (cover_sheet_document failing_ext ''out.pdf'')) (files empty_world) =
     Inl (Raised ''Permission denied'', Map.empty) \<and>
   build failing_ext (b_doc (cover_sheet_document failing_ext ''CivilActionCoverSheet.pdf''))
     (b_story (cover_sheet_document failing_ext ''CivilActionCoverSheet.pdf''))
     (files empty_world) = Inl (Raised ''Permission denied'', Map.empty) \<and>
   save failing_ext (fee_waiver_canvas failing_ext ''out.pdf'') (files empty_world) =
     Inl (Raised ''Permission denied'', Map.empty) \<and>
   save failing_ext (fee_waiver_canvas failing_ext ''Fee_Waiver_Request_Bo_Shang.pdf'')
     (files empty_world) = Inl (Raised ''Permission denied'', Map.empty) \<and>
   generate_civil_action_pdf failing_ext ''out.pdf'' empty_world =
     Inl (Raised ''Permission denied'', empty_world) \<and>
   create_civil_cover_sheet failing_ext ''out.pdf'' empty_world =
     Inl (Raised ''Permission denied'', empty_world) \<and>
   generate_fee_waiver_request failing_ext ''out.pdf'' empty_world =
     Inl (Raised ''Permission denied'', empty_world) \<and>
   run_script (complaint_main failing_ext) [''gen.py'', ''out.pdf''] empty_world =
     (1, \<lparr>files = Map.empty, stdout = [], stderr = [''Permission denied'']\<rparr>) \<and>
   run_script (cover_main failing_ext) [''gen.py'', ''out.pdf''] empty_world =
     (1, \<lparr>files = Map.empty, stdout = [], stderr = [''Permission denied'']\<rparr>) \<and>
   run_script (fee_waiver_main failing_ext) [''gen.py'', ''out.pdf''] empty_world =
     (1, \<lparr>files = Map.empty, stdout = [], stderr = [''Permission denied'']\<rparr>)"
proof -
  have fails:
    "build failing_ext = (\<lambda>doc story fs. Inl (Raised ''Permission denied'', fs))"
    "save failing_ext = (\<lambda>c fs. Inl (Raised ''Permission denied'', fs))"
    "files empty_world = Map.empty"
    "stdout empty_world = []"
    "stderr empty_world = []"
    by (simp_all add: failing_ext_def empty_world_def)
  have same: "empty_world\<lparr>files := Map.empty\<rparr> = empty_world"
    "empty_world\<lparr>files := Map.empty, stderr := [''Permission denied'']\<rparr> =
       \<lparr>files = Map.empty, stdout = [], stderr = [''Permission denied'']\<rparr>"
    by (simp_all add: empty_world_def)
  show ?thesis
    using render_error_propagates [where ext = failing_ext and p = "''out.pdf''"
        and w = empty_world and msg = "''Permission denied''" and fs' = Map.empty
        and argv = "[''gen.py'', ''out.pdf'']"]
    by (simp add: fails same)
qed

text \<open>
  C10. For any two output paths, each generator builds the same styles and the same
  story, block for block; the document template differs in its file name only. The
  fee waiver generator, which draws on a canvas instead of building a story, draws
  the same strings at the same places; its canvas differs in its file name only.
\<close>

theorem output_path_does_not_reach_content:
  "b_story (civil_action_document ext p1) = b_story (civil_action_document ext p2) \<and>
   b_styles (civil_action_document ext p1) = b_styles (civil_action_document ext p2) \<and>
   b_doc (civil_action_document ext p1) =
     (b_doc (civil_action_document ext p2))\<lparr>filename := p1\<rparr> \<and>
   b_story (cover_sheet_document ext p1) = b_story (cover_sheet_document ext p2) \<and>
   b_styles (cover_sheet_document ext p1) = b_styles (cover_sheet_document ext p2) \<and>
   b_doc (cover_sheet_document ext p1) =
     (b_doc (cover_sheet_document ext p2))\<lparr>filename := p1\<rparr> \<and>
   fee_waiver_canvas ext p1 = (fee_waiver_canvas ext p2)\<lparr>c_filename := p1\<rparr>"
  using fee_waiver_canvas_path [of ext p1 p2]
  by (simp add: civil_action_document_def cover_sheet_document_def Let_def)

end
